theory Spec2Isabelle
  imports Complex_Main
begin

section \<open>Agilent oscilloscope driver (pylablib/devices/Agilent/base.py)\<close>

text \<open>
  The driver is a class of methods that talk to one instrument through the SCPI layer.
  Every method is modelled as a function from the instrument state to an outcome (an
  exception or a value) and the instrument state afterwards, so that an exception keeps
  whatever the instrument has already received.

  Python floats are modelled as rationals: every finite float is a rational, the
  arithmetic is exact, and IEEE rounding, infinities and NaN are not part of the model.
\<close>

subsection \<open>Python values and exceptions\<close>

datatype pyval = PyNone | PyInt int | PyStr string | PyList "pyval list"

datatype error =
    AgilentError string     \<comment> \<open>\<open>self.Error\<close>, the device error class of the driver\<close>
  | ValueError string
  | IndexError string
  | ZeroDivisionError string
  | ValidationError string  \<comment> \<open>a value that a parameter class does not declare\<close>
  | BackendError string     \<comment> \<open>whatever the transport raises (timeout, disconnect)\<close>

type_synonym ('s, 'a) io = "'s \<Rightarrow> (error + 'a) \<times> 's"

definition return_io :: "'a \<Rightarrow> ('s, 'a) io" where
  "return_io x s = (Inr x, s)"

definition raise_io :: "error \<Rightarrow> ('s, 'a) io" where
  "raise_io e s = (Inl e, s)"

definition lift_io :: "error + 'a \<Rightarrow> ('s, 'a) io" where
  "lift_io r s = (r, s)"

definition bind_io :: "('s, 'a) io \<Rightarrow> ('a \<Rightarrow> ('s, 'b) io) \<Rightarrow> ('s, 'b) io" where
  "bind_io m f s = (case m s of (Inl e, s') \<Rightarrow> (Inl e, s') | (Inr x, s') \<Rightarrow> f x s')"

definition then_io :: "('s, 'a) io \<Rightarrow> ('s, 'b) io \<Rightarrow> ('s, 'b) io" where
  "then_io m k = bind_io m (\<lambda>_. k)"

subsection \<open>Python string functions\<close>

definition is_digit :: "char \<Rightarrow> bool" where
  "is_digit c = (48 \<le> (of_char c :: nat) \<and> (of_char c :: nat) \<le> 57)"

definition is_space :: "char \<Rightarrow> bool" where
  \<comment> \<open>ASCII whitespace: tab, newline, vertical tab, form feed, carriage return, space\<close>
  "is_space c = ((9 \<le> (of_char c :: nat) \<and> (of_char c :: nat) \<le> 13) \<or> (of_char c :: nat) = 32)"

definition py_strip :: "string \<Rightarrow> string" where
  "py_strip s = rev (dropWhile is_space (rev (dropWhile is_space s)))"

definition upper_char :: "char \<Rightarrow> char" where
  "upper_char c =
     (if 97 \<le> (of_char c :: nat) \<and> (of_char c :: nat) \<le> 122
      then char_of ((of_char c :: nat) - 32) else c)"

definition py_upper :: "string \<Rightarrow> string" where
  "py_upper s = map upper_char s"

definition startswith :: "string \<Rightarrow> string \<Rightarrow> bool" where
  "startswith s p = (take (length p) s = p)"

fun py_in :: "string \<Rightarrow> string \<Rightarrow> bool" where
  \<comment> \<open>\<open>sub in s\<close> on strings: \<open>sub\<close> occurs in \<open>s\<close> as a contiguous piece\<close>
  "py_in sub [] = (sub = [])"
| "py_in sub (c # cs) = (startswith (c # cs) sub \<or> py_in sub cs)"

fun py_split :: "char \<Rightarrow> string \<Rightarrow> string list" where
  \<comment> \<open>\<open>s.split(sep)\<close> for a one-character separator\<close>
  "py_split sep [] = [[]]"
| "py_split sep (c # cs) =
     (if c = sep then [] # py_split sep cs
      else (case py_split sep cs of [] \<Rightarrow> [[c]] | w # ws \<Rightarrow> (c # w) # ws))"

definition digits_val :: "string \<Rightarrow> nat" where
  "digits_val ds = foldl (\<lambda>a c. 10 * a + ((of_char c :: nat) - 48)) 0 ds"

definition all_digits :: "string \<Rightarrow> bool" where
  "all_digits ds = (ds \<noteq> [] \<and> list_all is_digit ds)"

definition signed_digits :: "string \<Rightarrow> int option" where
  "signed_digits t =
     (case t of
        [] \<Rightarrow> None
      | c # r \<Rightarrow>
          if c = CHR ''-'' then (if all_digits r then Some (- int (digits_val r)) else None)
          else if c = CHR ''+'' then (if all_digits r then Some (int (digits_val r)) else None)
          else (if all_digits t then Some (int (digits_val t)) else None))"

definition py_int :: "string \<Rightarrow> int option" where
  \<comment> \<open>\<open>int(s)\<close> on a string: surrounding whitespace, an optional sign, decimal digits.
      \<open>None\<close> stands for the ValueError. Digit-group underscores and non-ASCII digits
      are outside the model.\<close>
  "py_int s = signed_digits (py_strip s)"

definition mantissa :: "string \<Rightarrow> rat option" where
  "mantissa m =
     (let ip = takeWhile (\<lambda>c. c \<noteq> CHR ''.'') m;
          rest = dropWhile (\<lambda>c. c \<noteq> CHR ''.'') m;
          fp = (case rest of [] \<Rightarrow> [] | _ # r \<Rightarrow> r)
      in if list_all is_digit ip \<and> list_all is_digit fp \<and> ip @ fp \<noteq> []
         then Some (of_nat (digits_val (ip @ fp)) / 10 ^ length fp)
         else None)"

definition is_exp_mark :: "char \<Rightarrow> bool" where
  "is_exp_mark c = (c = CHR ''e'' \<or> c = CHR ''E'')"

definition unsigned_float :: "string \<Rightarrow> rat option" where
  "unsigned_float t =
     (let m = takeWhile (\<lambda>c. \<not> is_exp_mark c) t;
          rest = dropWhile (\<lambda>c. \<not> is_exp_mark c) t
      in case mantissa m of
           None \<Rightarrow> None
         | Some v \<Rightarrow>
             (case rest of
                [] \<Rightarrow> Some v
              | _ # ex \<Rightarrow>
                  (case signed_digits ex of
                     None \<Rightarrow> None
                   | Some k \<Rightarrow> Some (if 0 \<le> k then v * 10 ^ nat k else v / 10 ^ nat (- k)))))"

definition py_float :: "string \<Rightarrow> rat option" where
  \<comment> \<open>\<open>float(s)\<close> on a string: surrounding whitespace, an optional sign, a decimal
      mantissa with an optional fraction, an optional exponent. \<open>None\<close> stands for the
      ValueError. The value is the exact decimal; \<open>inf\<close>, \<open>nan\<close> and underscores
      are outside the model.\<close>
  "py_float s =
     (case py_strip s of
        [] \<Rightarrow> None
      | c # r \<Rightarrow>
          if c = CHR ''-'' then map_option uminus (unsigned_float r)
          else if c = CHR ''+'' then unsigned_float r
          else unsigned_float (c # r))"

definition py_index :: "'a list \<Rightarrow> int \<Rightarrow> error + 'a" where
  \<comment> \<open>\<open>t[i]\<close> on a tuple: \<open>t[-k]\<close> is the \<open>k\<close>-th element from the end\<close>
  "py_index xs i =
     (if 0 \<le> i \<and> i < int (length xs) then Inr (xs ! nat i)
      else if i < 0 \<and> - int (length xs) \<le> i then Inr (xs ! nat (int (length xs) + i))
      else Inl (IndexError ''tuple index out of range''))"

definition int_of_str :: "string \<Rightarrow> error + int" where
  \<comment> \<open>\<open>int(s)\<close> with its exception; the message is cut down to the offending text\<close>
  "int_of_str s = (case py_int s of None \<Rightarrow> Inl (ValueError s) | Some i \<Rightarrow> Inr i)"

definition float_of_str :: "string \<Rightarrow> error + rat" where
  "float_of_str s = (case py_float s of None \<Rightarrow> Inl (ValueError s) | Some x \<Rightarrow> Inr x)"

definition digit_char :: "nat \<Rightarrow> char" where
  \<comment> \<open>the digit of a value below 16, as Python writes it in decimal and in hexadecimal escapes\<close>
  "digit_char d = ''0123456789abcdef'' ! d"

function str_nat :: "nat \<Rightarrow> string" where
  "str_nat n =
     (if n < 10 then [digit_char n]
      else str_nat (n div 10) @ [digit_char (n mod 10)])"
  by pat_completeness auto
termination
  by (relation "measure id") auto

declare str_nat.simps [simp del]

definition str_int :: "int \<Rightarrow> string" where
  \<comment> \<open>\<open>str(i)\<close>, also what \<open>"{}".format(i)\<close> writes\<close>
  "str_int i = (if i < 0 then CHR ''-'' # str_nat (nat (- i)) else str_nat (nat i))"

definition repr_char :: "char \<Rightarrow> char \<Rightarrow> string" where
  \<comment> \<open>one character inside \<open>repr(s)\<close>, for the quote \<open>q\<close> that \<open>repr\<close> chose\<close>
  "repr_char q c =
     (if c = CHR 0x5C then [CHR 0x5C, CHR 0x5C]
      else if c = q then [CHR 0x5C, q]
      else if c = CHR 0x0A then [CHR 0x5C, CHR ''n'']
      else if c = CHR 0x0D then [CHR 0x5C, CHR ''r'']
      else if c = CHR 0x09 then [CHR 0x5C, CHR ''t'']
      else if (of_char c :: nat) < 32 \<or> (of_char c :: nat) = 127
        then [CHR 0x5C, CHR ''x'', digit_char ((of_char c :: nat) div 16),
              digit_char ((of_char c :: nat) mod 16)]
      else [c])"

definition repr_str :: "string \<Rightarrow> string" where
  \<comment> \<open>\<open>repr(s)\<close> of an ASCII string: single quotes, unless the string has a single
      quote and no double quote\<close>
  "repr_str s =
     (let q = (if CHR 0x27 \<in> set s \<and> CHR 0x22 \<notin> set s then CHR 0x22 else CHR 0x27)
      in [q] @ concat (map (repr_char q) s) @ [q])"

fun join :: "string \<Rightarrow> string list \<Rightarrow> string" where
  "join sep [] = []"
| "join sep [x] = x"
| "join sep (x # y # ys) = x @ sep @ join sep (y # ys)"

definition str_list :: "string list \<Rightarrow> string" where
  \<comment> \<open>what \<open>"{}".format(data)\<close> writes for a list of strings\<close>
  "str_list xs = ''['' @ join '', '' (map repr_str xs) @ '']''"

subsection \<open>The SCPI layer\<close>

text \<open>
  The driver inherits \<open>write\<close>, \<open>ask\<close>, \<open>read\<close>, \<open>read_binary_array_data\<close> and
  \<open>parse_array_data\<close> from \<open>SCPI.SCPIDevice\<close>, and its decorators look parameters up
  in the device's parameter table; none of these is in the source file. They are
  parameters of the model: a record of the operations on an instrument state \<open>'s\<close>, and
  every driver function takes the record first. \<open>write(msg, arg, kind)\<close> sends the
  message composed from \<open>msg\<close> and the argument; \<open>ask(msg, kind)\<close> converts the reply
  to the kind asked for. Timeouts are arguments of the transport and do not appear.
\<close>

datatype scpi_arg = ArgBool bool | ArgFloat rat | ArgInt int | ArgStr string

datatype sample = SInt int | SFloat rat

record 's scpi =
  write_msg :: "string \<Rightarrow> ('s, unit) io"
  ask :: "string \<Rightarrow> ('s, string) io"
  compose_msg :: "string \<Rightarrow> scpi_arg \<Rightarrow> string"
  parse_bool :: "string \<Rightarrow> error + bool"
  parse_float :: "string \<Rightarrow> error + rat"
  parse_int :: "string \<Rightarrow> error + int"
  read_raw :: "('s, string) io"
  read_binary_array_data :: "('s, string) io"
  parse_array_data :: "string \<Rightarrow> string \<Rightarrow> bool \<Rightarrow> error + sample list"
  to_device :: "string \<Rightarrow> pyval \<Rightarrow> error + string"
  from_device :: "string \<Rightarrow> string \<Rightarrow> error + pyval"

definition write_arg :: "'s scpi \<Rightarrow> string \<Rightarrow> scpi_arg \<Rightarrow> ('s, unit) io" where
  "write_arg T msg arg = write_msg T (compose_msg T msg arg)"

definition ask_bool :: "'s scpi \<Rightarrow> string \<Rightarrow> ('s, bool) io" where
  "ask_bool T msg = bind_io (ask T msg) (\<lambda>r. lift_io (parse_bool T r))"

definition ask_float :: "'s scpi \<Rightarrow> string \<Rightarrow> ('s, rat) io" where
  "ask_float T msg = bind_io (ask T msg) (\<lambda>r. lift_io (parse_float T r))"

definition ask_int :: "'s scpi \<Rightarrow> string \<Rightarrow> ('s, int) io" where
  "ask_int T msg = bind_io (ask T msg) (\<lambda>r. lift_io (parse_int T r))"

subsection \<open>Data formats\<close>

text \<open>
  \<open>data_format.DataFormat(size, kind, byteorder)\<close>: the kind is \<open>"i"\<close>, \<open>"u"\<close>,
  \<open>"f"\<close> or \<open>"ascii"\<close>, the byte order \<open>"<"\<close> or \<open>">"\<close>; the ASCII format has
  neither size nor byte order.
\<close>

record DataFormat =
  fsize :: pyval
  kind :: string
  byteorder :: pyval

definition is_ascii :: "DataFormat \<Rightarrow> bool" where
  "is_ascii f = (kind f = ''ascii'')"

definition str_pyval :: "pyval \<Rightarrow> string" where
  "str_pyval v = (case v of PyInt i \<Rightarrow> str_int i | PyStr s \<Rightarrow> s | _ \<Rightarrow> [])"

definition to_desc :: "DataFormat \<Rightarrow> string" where
  \<comment> \<open>Modelled from the spec: \<open>DataFormat.to_desc\<close> is not in the source file; the
      docstrings of \<open>set_data_format\<close> and \<open>get_data_format\<close> give the descriptor as
      \<open>"ascii"\<close> or a numpy-style string such as \<open>"<u2"\<close>.\<close>
  "to_desc f =
     (if is_ascii f then ''ascii''
      else str_pyval (byteorder f) @ kind f @ str_pyval (fsize f))"

definition default_data_fmt :: DataFormat where
  \<comment> \<open>\<open>self.default_data_fmt="<i1"\<close>, in the form \<open>DataFormat.from_desc\<close> gives it\<close>
  "default_data_fmt = \<lparr>fsize = PyInt 1, kind = ''i'', byteorder = PyStr ''<''\<rparr>"

datatype fmt_arg = FmtDefault | Fmt DataFormat

definition get_data_format :: "'s scpi \<Rightarrow> string option \<Rightarrow> ('s, DataFormat) io" where
  "get_data_format T form =
     bind_io (if form = None \<or> form = Some [] then bind_io (ask T '':WAV:FORM?'') (\<lambda>r. return_io (py_upper r))
              else return_io (the form))
       (\<lambda>form.
          if startswith form ''ASC''
          then return_io \<lparr>fsize = PyNone, kind = ''ascii'', byteorder = PyNone\<rparr>
          else
            bind_io (ask_bool T ''WAV:UNS?'') (\<lambda>uns.
            bind_io (ask T '':WAV:BYT?'') (\<lambda>border.
              return_io
                \<lparr>fsize = PyInt (if startswith form ''WORD'' then 2 else 1),
                 kind = (if uns then ''u'' else ''i''),
                 byteorder = PyStr (if py_upper border = ''LSBF'' then ''>'' else ''<'')\<rparr>)))"

definition unsupported_msg :: "DataFormat \<Rightarrow> string" where
  \<comment> \<open>\<open>"format {0} isn't supported".format(fmt)\<close>\<close>
  "unsupported_msg fmt = ''format '' @ to_desc fmt @ '' isn'' @ [CHR 0x27] @ ''t supported''"

definition set_data_format :: "'s scpi \<Rightarrow> fmt_arg \<Rightarrow> ('s, DataFormat) io" where
  "set_data_format T arg =
     (let fmt = (case arg of FmtDefault \<Rightarrow> default_data_fmt | Fmt f \<Rightarrow> f) in
      if is_ascii fmt
      then then_io (write_msg T '':WAV:FORM ASCII'') (get_data_format T None)
      else if \<not> py_in (kind fmt) ''iu'' \<or> fsize fmt \<notin> {PyInt 1, PyInt 2}
      then raise_io (ValueError (unsupported_msg fmt))
      else
        then_io
          (if kind fmt = ''u'' then write_arg T '':WAV:UNS'' (ArgBool True)
           else write_arg T '':WAV:UNS'' (ArgBool False))
       (then_io
          (if fsize fmt = PyStr ''1'' then write_msg T '':WAV:FORM BYTE''
           else
             then_io (write_msg T '':WAV:FORM WORD'')
               (if byteorder fmt = PyStr ''>'' then write_msg T '':WAV:BYT LSBF''
                else write_msg T '':WAV:BYT MSBF''))
          (get_data_format T None)))"

subsection \<open>The waveform preamble\<close>

record wfmpre =
  w_fmt :: DataFormat
  w_type :: string
  w_pts :: int
  w_count :: int
  w_xzero :: rat
  w_xincr :: rat
  w_ptoff :: int
  w_ymult :: rat
  w_yzero :: rat
  w_yoff :: rat

definition fmt_table :: "string list" where
  "fmt_table = [''BYTE'', ''WORD'', [], ''ASCII'']"

definition type_table :: "string list" where
  "type_table = [''NORM'', ''PEAK'', ''AVER'', ''HRES'']"

definition build_wfmpre :: "'s scpi \<Rightarrow> string list \<Rightarrow> ('s, wfmpre) io" where
  \<comment> \<open>\<open>_build_wfmpre\<close>; the fields are read in the order of the source's statements,
      \<open>data[5]\<close> before \<open>data[4]\<close>\<close>
  "build_wfmpre T data =
     (if length data < 10
      then raise_io (AgilentError (''incomplete preamble: '' @ str_list data))
      else
        bind_io (lift_io (int_of_str (data ! 0))) (\<lambda>c0.
        bind_io (lift_io (py_index fmt_table c0)) (\<lambda>form.
        bind_io (get_data_format T (Some form)) (\<lambda>fmt.
        bind_io (lift_io (int_of_str (data ! 1))) (\<lambda>c1.
        bind_io (lift_io (py_index type_table c1)) (\<lambda>ty.
        bind_io (lift_io (int_of_str (data ! 2))) (\<lambda>pts.
        bind_io (lift_io (int_of_str (data ! 3))) (\<lambda>cnt.
        bind_io (lift_io (float_of_str (data ! 5))) (\<lambda>xzero.
        bind_io (lift_io (float_of_str (data ! 4))) (\<lambda>xincr.
        bind_io (lift_io (int_of_str (data ! 6))) (\<lambda>ptoff.
        bind_io (lift_io (float_of_str (data ! 7))) (\<lambda>ymult.
        bind_io (lift_io (float_of_str (data ! 8))) (\<lambda>yzero.
        bind_io (lift_io (float_of_str (data ! 9))) (\<lambda>yoff.
          return_io
            \<lparr>w_fmt = fmt, w_type = ty, w_pts = pts, w_count = cnt, w_xzero = xzero,
             w_xincr = xincr, w_ptoff = ptoff, w_ymult = ymult, w_yzero = yzero,
             w_yoff = yoff\<rparr>))))))))))))))"

subsection \<open>Channels and the channel multiplexer\<close>

text \<open>
  A channel argument is a Python value: an integer index of a main channel, a name, the
  word \<open>"all"\<close>, or a list of these. \<open>interface.use_parameters\<close> converts an argument
  through the parameter class of the given name (\<open>to_device\<close>) and a return value back
  (\<open>from_device\<close>); \<open>self._wip\<close> calls a method with arguments that are already in
  the device's form, so only the return value is converted.
\<close>

datatype 'a muxres = One 'a | Many "(error + 'a) list"

fun mux_list :: "(pyval \<Rightarrow> ('s, 'a) io) \<Rightarrow> pyval list \<Rightarrow> ('s, (error + 'a) list) io" where
  "mux_list f [] s = (Inr [], s)"
| "mux_list f (c # cs) s =
     (case f c s of
        (r, s') \<Rightarrow>
          (case mux_list f cs s' of
             (Inr rs, s'') \<Rightarrow> (Inr (r # rs), s'')
           | (Inl e, s'') \<Rightarrow> (Inl e, s'')))"

definition muxcall ::
  "(pyval \<times> pyval) list \<Rightarrow> (pyval \<Rightarrow> ('s, 'a) io) \<Rightarrow> pyval \<Rightarrow> ('s, 'a muxres) io" where
  \<comment> \<open>Modelled from the spec: \<open>general.muxcall\<close> is not in the source file. A special
      value of the argument is replaced by its expansion; a list runs the operation once
      per element, in the given order, and returns the ordered sequence of the
      per-channel outcomes (\<open>return_kind="list"\<close>, \<open>allow_partial=True\<close>: a failure on
      one channel is captured and the other channels still run); any other value is the
      plain single-channel call and returns a scalar.\<close>
  "muxcall special f ch =
     (case (case map_of special ch of Some ex \<Rightarrow> ex | None \<Rightarrow> ch) of
        PyList cs \<Rightarrow> bind_io (mux_list f cs) (\<lambda>rs. return_io (Many rs))
      | c \<Rightarrow> bind_io (f c) (\<lambda>r. return_io (One r)))"

definition ch_func :: "int list \<Rightarrow> pyval" where
  \<comment> \<open>\<open>list(self._main_channels_idx)\<close>\<close>
  "ch_func main_channels_idx = PyList (map PyInt main_channels_idx)"

definition muxchannel ::
  "int list \<Rightarrow> (pyval \<Rightarrow> ('s, 'a) io) \<Rightarrow> pyval \<Rightarrow> ('s, 'a muxres) io" where
  "muxchannel main_channels_idx f = muxcall [(PyStr ''all'', ch_func main_channels_idx)] f"

definition use_channel :: "'s scpi \<Rightarrow> (string \<Rightarrow> ('s, 'a) io) \<Rightarrow> pyval \<Rightarrow> ('s, 'a) io" where
  \<comment> \<open>\<open>@interface.use_parameters(channel="input_channel")\<close> around a method of the
      channel\<close>
  "use_channel T body ch = bind_io (lift_io (to_device T ''input_channel'' ch)) body"

subsection \<open>Acquisition state and trigger\<close>

definition is_grabbing :: "'s scpi \<Rightarrow> ('s, bool) io" where
  "is_grabbing T = bind_io (ask T '':ACQ:COMP?'') (\<lambda>r. return_io (r \<noteq> ''100''))"

definition trig_comm :: string where
  "trig_comm = ''TRIG''"

definition get_trigger_level :: "'s scpi \<Rightarrow> ('s, rat) io" where
  "get_trigger_level T = ask_float T (trig_comm @ '':LEVEL?'')"

definition set_trigger_level :: "'s scpi \<Rightarrow> rat \<Rightarrow> ('s, rat) io" where
  "set_trigger_level T level =
     then_io (write_arg T (trig_comm @ '':LEVEL'') (ArgFloat level)) (get_trigger_level T)"

subsection \<open>Horizontal axis\<close>

definition get_horizontal_span :: "'s scpi \<Rightarrow> ('s, rat) io" where
  "get_horizontal_span T = bind_io (ask_float T '':TIM:SCAL?'') (\<lambda>v. return_io (v * 10))"

definition set_horizontal_span :: "'s scpi \<Rightarrow> rat \<Rightarrow> ('s, rat) io" where
  "set_horizontal_span T span_v =
     then_io (write_arg T ''TIM:SCAL'' (ArgFloat (span_v / 10))) (get_horizontal_span T)"

definition hor_pos_mode :: string where
  "hor_pos_mode = ''real_center''"

definition to_horizontal_pos :: "'s scpi \<Rightarrow> rat \<Rightarrow> ('s, rat) io" where
  "to_horizontal_pos T center_time =
     (if hor_pos_mode = ''real_center'' then return_io center_time
      else
        bind_io (get_horizontal_span T) (\<lambda>span_v.
          if span_v = 0 then raise_io (ZeroDivisionError ''float division by zero'')
          else return_io (min (max (center_time / span_v * 100 + 50) 0) 100)))"

definition from_horizontal_pos :: "'s scpi \<Rightarrow> rat \<Rightarrow> ('s, rat) io" where
  "from_horizontal_pos T hor_pos =
     (if hor_pos_mode = ''real_center'' then return_io hor_pos
      else bind_io (get_horizontal_span T) (\<lambda>span_v. return_io ((hor_pos / 100 - 1 / 2) * span_v)))"

definition get_horizontal_offset :: "'s scpi \<Rightarrow> ('s, rat) io" where
  "get_horizontal_offset T = bind_io (ask_float T '':TIM:POS?'') (from_horizontal_pos T)"

definition set_horizontal_offset :: "'s scpi \<Rightarrow> rat \<Rightarrow> ('s, rat) io" where
  "set_horizontal_offset T offset =
     bind_io (to_horizontal_pos T offset) (\<lambda>pos.
       then_io (write_arg T '':TIM:POS'' (ArgFloat pos)) (get_horizontal_offset T))"

subsection \<open>Per-channel settings\<close>

text \<open>
  Each method is given in three layers, as the decorators stack them: the body on a
  channel in the device's form (what \<open>self._wip\<close> reaches), the parameter conversion
  around it, and the multiplexer around both.
\<close>

definition wip_get_vertical_span :: "'s scpi \<Rightarrow> string \<Rightarrow> ('s, rat) io" where
  "wip_get_vertical_span T channel =
     bind_io (ask_float T ('':'' @ channel @ '':SCAL?'')) (\<lambda>v. return_io (v * 10))"

definition get_vertical_span :: "'s scpi \<Rightarrow> int list \<Rightarrow> pyval \<Rightarrow> ('s, rat muxres) io" where
  "get_vertical_span T idx = muxchannel idx (use_channel T (wip_get_vertical_span T))"

definition set_vertical_span :: "'s scpi \<Rightarrow> int list \<Rightarrow> pyval \<Rightarrow> rat \<Rightarrow> ('s, rat muxres) io" where
  "set_vertical_span T idx channel span_v =
     muxchannel idx
       (use_channel T (\<lambda>ch.
          then_io (write_arg T ('':'' @ ch @ '':SCAL'') (ArgFloat (span_v / 10)))
            (wip_get_vertical_span T ch)))
       channel"

definition wip_get_vertical_position :: "'s scpi \<Rightarrow> string \<Rightarrow> ('s, rat) io" where
  "wip_get_vertical_position T channel = ask_float T ('':'' @ channel @ ''::OFFS?'')"

definition get_vertical_position :: "'s scpi \<Rightarrow> int list \<Rightarrow> pyval \<Rightarrow> ('s, rat muxres) io" where
  "get_vertical_position T idx = muxchannel idx (use_channel T (wip_get_vertical_position T))"

definition set_vertical_position ::
  "'s scpi \<Rightarrow> int list \<Rightarrow> pyval \<Rightarrow> rat \<Rightarrow> ('s, rat muxres) io" where
  "set_vertical_position T idx channel position =
     muxchannel idx
       (use_channel T (\<lambda>ch.
          then_io (write_arg T ('':'' @ ch @ ''::OFFS'') (ArgFloat position))
            (wip_get_vertical_position T ch)))
       channel"

definition wip_is_channel_enabled :: "'s scpi \<Rightarrow> string \<Rightarrow> ('s, bool) io" where
  "wip_is_channel_enabled T channel = ask_bool T ('':'' @ channel @ '':DISP?'')"

definition is_channel_enabled :: "'s scpi \<Rightarrow> int list \<Rightarrow> pyval \<Rightarrow> ('s, bool muxres) io" where
  "is_channel_enabled T idx = muxchannel idx (use_channel T (wip_is_channel_enabled T))"

definition enable_channel :: "'s scpi \<Rightarrow> int list \<Rightarrow> pyval \<Rightarrow> bool \<Rightarrow> ('s, bool muxres) io" where
  "enable_channel T idx channel enabled =
     muxchannel idx
       (use_channel T (\<lambda>ch.
          then_io (write_arg T ('':'' @ ch @ '':DISP'') (ArgBool enabled))
            (wip_is_channel_enabled T ch)))
       channel"

definition returns_coupling :: "'s scpi \<Rightarrow> string muxres \<Rightarrow> ('s, pyval muxres) io" where
  \<comment> \<open>\<open>_returns="coupling"\<close> on what the multiplexed call returned: the parameter
      class converts a single reply; a sequence of replies is not a token of the
      class\<close>
  "returns_coupling T r =
     (case r of
        One reply \<Rightarrow> bind_io (lift_io (from_device T ''coupling'' reply)) (\<lambda>v. return_io (One v))
      | Many rs \<Rightarrow> raise_io (ValueError ''coupling''))"

definition wip_get_coupling :: "'s scpi \<Rightarrow> int list \<Rightarrow> string \<Rightarrow> ('s, pyval muxres) io" where
  \<comment> \<open>\<open>get_coupling\<close> has the parameter conversion outside the multiplexer\<close>
  "wip_get_coupling T idx channel =
     bind_io (muxchannel idx (\<lambda>c. ask T ('':'' @ str_pyval c @ '':COUP?'')) (PyStr channel))
       (returns_coupling T)"

definition get_coupling :: "'s scpi \<Rightarrow> int list \<Rightarrow> pyval \<Rightarrow> ('s, pyval muxres) io" where
  "get_coupling T idx channel =
     bind_io (lift_io (to_device T ''input_channel'' channel)) (wip_get_coupling T idx)"

definition set_coupling ::
  "'s scpi \<Rightarrow> int list \<Rightarrow> pyval \<Rightarrow> pyval \<Rightarrow> ('s, pyval muxres muxres) io" where
  "set_coupling T idx channel coupling =
     muxchannel idx
       (use_channel T (\<lambda>ch.
          bind_io (lift_io (to_device T ''coupling'' coupling)) (\<lambda>cp.
            then_io (write_arg T ('':'' @ ch @ '':COUP'') (ArgStr cp))
              (wip_get_coupling T idx ch))))
       channel"

definition probe_attenuation_comm :: "(string \<times> string) option" where
  "probe_attenuation_comm = Some (''PROB'', ''att'')"

definition wip_get_probe_attenuation :: "'s scpi \<Rightarrow> string \<Rightarrow> ('s, rat) io" where
  "wip_get_probe_attenuation T channel =
     (case probe_attenuation_comm of
        None \<Rightarrow> return_io 1
      | Some (comm, knd) \<Rightarrow>
          bind_io (ask_float T ('':'' @ channel @ '':'' @ comm @ ''?'')) (\<lambda>v.
            if knd = ''att'' then return_io v
            else if v = 0 then raise_io (ZeroDivisionError ''float division by zero'')
            else return_io (1 / v)))"

definition get_probe_attenuation :: "'s scpi \<Rightarrow> int list \<Rightarrow> pyval \<Rightarrow> ('s, rat muxres) io" where
  "get_probe_attenuation T idx = muxchannel idx (use_channel T (wip_get_probe_attenuation T))"

definition set_probe_attenuation ::
  "'s scpi \<Rightarrow> int list \<Rightarrow> pyval \<Rightarrow> rat \<Rightarrow> ('s, rat muxres) io" where
  "set_probe_attenuation T idx channel attenuation =
     muxchannel idx
       (use_channel T (\<lambda>ch.
          then_io
            (case probe_attenuation_comm of
               None \<Rightarrow> return_io ()
             | Some (comm, knd) \<Rightarrow>
                 if knd = ''att'' then write_arg T ('':'' @ ch @ '':'' @ comm) (ArgFloat attenuation)
                 else if attenuation = 0 then raise_io (ZeroDivisionError ''float division by zero'')
                 else write_arg T ('':'' @ ch @ '':'' @ comm) (ArgFloat (1 / attenuation)))
            (wip_get_probe_attenuation T ch)))
       channel"

subsection \<open>Selecting a channel and reading its preamble\<close>

definition get_selected_channel :: "'s scpi \<Rightarrow> ('s, pyval) io" where
  "get_selected_channel T =
     bind_io (ask T '':WAV:SOUR?'') (\<lambda>r. lift_io (from_device T ''input_channel'' (py_strip r)))"

definition select_channel :: "'s scpi \<Rightarrow> pyval \<Rightarrow> ('s, pyval) io" where
  "select_channel T =
     use_channel T (\<lambda>ch. then_io (write_msg T ('':WAV:SOUR '' @ ch)) (get_selected_channel T))"

definition normalize_channel :: "'s scpi \<Rightarrow> pyval \<Rightarrow> ('s, string) io" where
  "normalize_channel T channel = lift_io (to_device T ''channel'' channel)"

definition get_channel :: "'s scpi \<Rightarrow> pyval \<Rightarrow> ('s, pyval) io" where
  "get_channel T channel =
     (if channel = PyNone then get_selected_channel T
      else bind_io (normalize_channel T channel) (\<lambda>ch. return_io (PyStr ch)))"

definition change_channel :: "'s scpi \<Rightarrow> pyval \<Rightarrow> ('s, unit) io" where
  "change_channel T channel =
     (if channel \<noteq> PyNone then then_io (select_channel T channel) (return_io ())
      else return_io ())"

definition truthy :: "bool muxres \<Rightarrow> bool" where
  \<comment> \<open>the truth value Python gives the result: a list is true when it is not empty\<close>
  "truthy r = (case r of One b \<Rightarrow> b | Many rs \<Rightarrow> rs \<noteq> [])"

definition wfmpre_comm :: string where
  "wfmpre_comm = ''WAV:PRE''"

definition get_wfmpre :: "'s scpi \<Rightarrow> int list \<Rightarrow> pyval \<Rightarrow> bool \<Rightarrow> ('s, wfmpre) io" where
  \<comment> \<open>for one channel or \<open>None\<close>; on a list of channels the source maps this over
      the list and returns a dictionary\<close>
  "get_wfmpre T idx channel enable =
     then_io (change_channel T channel)
    (then_io
       (if enable then
          bind_io (get_channel T channel) (\<lambda>ch.
          bind_io (is_channel_enabled T idx ch) (\<lambda>en.
            if \<not> truthy en then then_io (enable_channel T idx ch True) (return_io ())
            else return_io ()))
        else return_io ())
       (bind_io (ask T ('':'' @ wfmpre_comm @ ''?'')) (\<lambda>r.
          build_wfmpre T (py_split (CHR '';'') r))))"

subsection \<open>Scaling and reading a sweep\<close>

definition float_of :: "sample \<Rightarrow> rat" where
  "float_of x = (case x of SInt i \<Rightarrow> of_int i | SFloat v \<Rightarrow> v)"

definition xpts :: "wfmpre \<Rightarrow> nat \<Rightarrow> rat list" where
  \<comment> \<open>\<open>(np.arange(n)-wfmpre["ptoff"])*wfmpre["xincr"]+wfmpre["xzero"]\<close>\<close>
  "xpts w n = map (\<lambda>i. of_int (int i - w_ptoff w) * w_xincr w + w_xzero w) [0..<n]"

definition ypts :: "wfmpre \<Rightarrow> sample list \<Rightarrow> rat list" where
  "ypts w data =
     (if is_ascii (w_fmt w) then map float_of data
      else map (\<lambda>d. (float_of d - w_yoff w) * w_ymult w + w_yzero w) data)"

definition scale_data ::
  "'s scpi \<Rightarrow> int list \<Rightarrow> sample list \<Rightarrow> wfmpre option \<Rightarrow> ('s, (rat \<times> rat) list) io" where
  \<comment> \<open>\<open>_scale_data\<close>; the result is the two-column array, one row \<open>(x, y)\<close> per
      sample\<close>
  "scale_data T idx data wfmpre =
     bind_io (case wfmpre of Some w \<Rightarrow> return_io w | None \<Rightarrow> get_wfmpre T idx PyNone True)
       (\<lambda>w. return_io (zip (xpts w (length data)) (ypts w data)))"

definition length_msg :: "nat \<Rightarrow> int \<Rightarrow> string" where
  "length_msg n pts =
     ''received data length '' @ str_int (int n) @ '' is not equal to the number of points ''
       @ str_int pts"

definition read_sweep_fast ::
  "'s scpi \<Rightarrow> int list \<Rightarrow> pyval \<Rightarrow> wfmpre option \<Rightarrow> ('s, (rat \<times> rat) list) io" where
  \<comment> \<open>\<open>_read_sweep_fast\<close>\<close>
  "read_sweep_fast T idx =
     (\<lambda>channel wfmpre.
        use_channel T (\<lambda>ch.
          then_io (write_msg T ('':WAV:SOUR '' @ ch))
         (bind_io (case wfmpre of Some w \<Rightarrow> return_io w | None \<Rightarrow> get_wfmpre T idx PyNone False)
            (\<lambda>w.
               then_io (write_msg T ''WAV:DATA?'')
              (bind_io (if is_ascii (w_fmt w) then read_raw T else read_binary_array_data T)
                 (\<lambda>data.
                    bind_io
                      (lift_io (parse_array_data T data (to_desc (w_fmt w)) (is_ascii (w_fmt w))))
                      (\<lambda>trace.
                         if int (length trace) \<noteq> w_pts w
                         then raise_io (AgilentError (length_msg (length trace) (w_pts w)))
                         else scale_data T idx trace (Some w)))))))
          channel)"

subsection \<open>A bench instrument\<close>

text \<open>
  An instance of the SCPI record, to run the driver on: an instrument with three main
  channels that records every message it receives and answers queries from a table.
\<close>

record bench_state =
  sent :: "string list"
  answers :: "(string \<times> string) list"
  payload :: string

definition enum_to_device :: "(pyval \<times> string) list \<Rightarrow> pyval \<Rightarrow> error + string" where
  \<comment> \<open>Modelled from the spec: \<open>interface.EnumParameterClass\<close> is not in the source
      file. A declared symbol converts to its token in the case the class gives
      (\<open>value_case="upper"\<close>); an unknown symbol fails with a ValidationError.\<close>
  "enum_to_device values v =
     (case map_of values v of
        Some tok \<Rightarrow> Inr (py_upper tok)
      | None \<Rightarrow> Inl (ValidationError (str_pyval v)))"

definition enum_from_device :: "(pyval \<times> string) list \<Rightarrow> string \<Rightarrow> error + pyval" where
  \<comment> \<open>Modelled from the spec: the token converts back to the symbol that declares it,
      compared without regard to case.\<close>
  "enum_from_device values reply =
     (case find (\<lambda>(a, tok). py_upper tok = py_upper reply) values of
        Some (a, tok) \<Rightarrow> Inr a
      | None \<Rightarrow> Inl (ValidationError reply))"

definition bench_idx :: "int list" where
  "bench_idx = [1, 2, 3]"

definition main_channels :: "int list \<Rightarrow> (pyval \<times> string) list" where
  \<comment> \<open>\<open>[(i,"chan{}".format(i)) for i in self._main_channels_idx]\<close>\<close>
  "main_channels idx = map (\<lambda>i. (PyInt i, ''chan'' @ str_int i)) idx"

definition aux_channels :: "(pyval \<times> string) list" where
  "aux_channels = map (\<lambda>n. (PyStr n, n)) [''ext'', ''line'', ''wgen'']"

definition bench_classes :: "string \<Rightarrow> (pyval \<times> string) list" where
  "bench_classes name =
     (if name = ''input_channel'' then main_channels bench_idx
      else if name = ''channel'' then main_channels bench_idx @ aux_channels
      else if name = ''coupling'' then map (\<lambda>n. (PyStr n, n)) [''ac'', ''dc'']
      else [])"

definition bench_compose :: "string \<Rightarrow> scpi_arg \<Rightarrow> string" where
  \<comment> \<open>a boolean is sent as \<open>0\<close> or \<open>1\<close>, a number in decimal ASCII; the bench writes a
      float as its exact fraction\<close>
  "bench_compose msg arg =
     msg @ '' '' @
       (case arg of
          ArgBool b \<Rightarrow> (if b then ''1'' else ''0'')
        | ArgInt i \<Rightarrow> str_int i
        | ArgStr s \<Rightarrow> s
        | ArgFloat x \<Rightarrow> str_int (fst (quotient_of x)) @ ''/'' @ str_int (snd (quotient_of x)))"

definition bench_parse_bool :: "string \<Rightarrow> error + bool" where
  "bench_parse_bool r =
     (if py_strip r = ''1'' then Inr True
      else if py_strip r = ''0'' then Inr False
      else Inl (ValueError r))"

definition bench_parse_array :: "string \<Rightarrow> string \<Rightarrow> bool \<Rightarrow> error + sample list" where
  \<comment> \<open>unsigned bytes for a binary format, comma-separated numbers for ASCII\<close>
  "bench_parse_array data desc header =
     (if desc = ''ascii''
      then (if list_all (\<lambda>f. py_float f \<noteq> None) (py_split (CHR '','') data)
            then Inr (map (\<lambda>f. SFloat (the (py_float f))) (py_split (CHR '','') data))
            else Inl (ValueError data))
      else Inr (map (\<lambda>c. SInt (int (of_char c))) data))"

definition bench_ask :: "string \<Rightarrow> (bench_state, string) io" where
  "bench_ask q s =
     (case map_of (answers s) q of
        Some r \<Rightarrow> (Inr r, s\<lparr>sent := sent s @ [q]\<rparr>)
      | None \<Rightarrow> (Inl (BackendError ''timeout''), s\<lparr>sent := sent s @ [q]\<rparr>))"

definition bench :: "bench_state scpi" where
  "bench =
     \<lparr>write_msg = (\<lambda>m s. (Inr (), s\<lparr>sent := sent s @ [m]\<rparr>)),
      ask = bench_ask,
      compose_msg = bench_compose,
      parse_bool = bench_parse_bool,
      parse_float = float_of_str,
      parse_int = int_of_str,
      read_raw = (\<lambda>s. (Inr (payload s), s)),
      read_binary_array_data = (\<lambda>s. (Inr (payload s), s)),
      parse_array_data = bench_parse_array,
      to_device = (\<lambda>name. enum_to_device (bench_classes name)),
      from_device = (\<lambda>name. enum_from_device (bench_classes name))\<rparr>"

definition bench0 :: "(string \<times> string) list \<Rightarrow> string \<Rightarrow> bench_state" where
  "bench0 tbl p = \<lparr>sent = [], answers = tbl, payload = p\<rparr>"





definition ascii_reply :: string where
  "ascii_reply = ''3;2;3;1;2e-9;0;0;1;0;0''"


definition settings_answers :: "(string \<times> string) list" where
  "settings_answers =
     [(''TRIG:LEVEL?'', ''1.5''), ('':TIM:SCAL?'', ''0.001''), ('':TIM:POS?'', ''0''),
      ('':CHAN1:SCAL?'', ''0.5''), ('':CHAN1::OFFS?'', ''0.25''), ('':CHAN1:DISP?'', ''1''),
      ('':CHAN1:PROB?'', ''10''), ('':CHAN1:COUP?'', ''DC'')]"

definition after :: "string \<Rightarrow> bench_state" where
  \<comment> \<open>the bench with the settings table, after it received one message\<close>
  "after m = \<lparr>sent = [m], answers = settings_answers, payload = []\<rparr>"

section \<open>Properties\<close>

subsection \<open>Sequencing\<close>

lemma bind_io_return [simp]: "bind_io (return_io x) f = f x"
  by (rule ext) (simp add: bind_io_def return_io_def)

lemma bind_io_raise [simp]: "bind_io (raise_io e) f = raise_io e"
  by (rule ext) (simp add: bind_io_def raise_io_def)

lemma bind_io_lift_Inr [simp]: "bind_io (lift_io (Inr x)) f = f x"
  by (rule ext) (simp add: bind_io_def lift_io_def)



lemma bind_io_Inl: "m s = (Inl e, s') \<Longrightarrow> bind_io m f s = (Inl e, s')"
  by (simp add: bind_io_def)

lemma then_io_Inr: "m s = (Inr x, s') \<Longrightarrow> then_io m k s = k s'"
  by (simp add: then_io_def bind_io_def)

lemma then_io_Inl: "m s = (Inl e, s') \<Longrightarrow> then_io m k s = (Inl e, s')"
  by (simp add: then_io_def bind_io_def)

subsection \<open>The bench instrument\<close>

lemma bench_write [simp]: "write_msg bench m s = (Inr (), s\<lparr>sent := sent s @ [m]\<rparr>)"
  by (simp add: bench_def)

lemma bench_ask_Some:
  "map_of (answers s) q = Some r \<Longrightarrow> ask bench q s = (Inr r, s\<lparr>sent := sent s @ [q]\<rparr>)"
  by (simp add: bench_def bench_ask_def)

lemma bench_ask_None:
  "map_of (answers s) q = None \<Longrightarrow> ask bench q s = (Inl (BackendError ''timeout''), s\<lparr>sent := sent s @ [q]\<rparr>)"
  by (simp add: bench_def bench_ask_def)

subsection \<open>Incomplete preambles\<close>





subsection \<open>Setting the data format\<close>

lemma py_in_iu: "py_in k ''iu'' \<longleftrightarrow> k \<in> {[], ''i'', ''u'', ''iu''}"
proof -
  have "py_in k ''iu'' \<longleftrightarrow> take (length k) ''iu'' = k \<or> take (length k) ''u'' = k \<or> k = []"
    by (simp add: startswith_def)
  also have "\<dots> \<longleftrightarrow> k \<in> {[], ''i'', ''u'', ''iu''}"
  proof (cases k)
    case Nil
    then show ?thesis by simp
  next
    case (Cons a k1)
    note k = this
    show ?thesis
    proof (cases k1)
      case Nil
      with k show ?thesis by auto
    next
      case (Cons b k2)
      with k show ?thesis by (cases k2) auto
    qed
  qed
  finally show ?thesis .
qed

text \<open>
  C5. For a binary descriptor whose kind is not \<open>i\<close> or \<open>u\<close>, or whose size is not
  the integer 1 or 2, \<open>set_data_format\<close> raises ValueError and the instrument state is
  the one before the call: nothing has been written. The source tests the kind with
  \<open>fmt.kind not in "iu"\<close>, which on strings is a substring test; the kinds it lets
  through are \<open>i\<close>, \<open>u\<close> and the two strings \<open>""\<close> and \<open>"iu"\<close>, which are not
  kinds of a \<open>DataFormat\<close>.
\<close>

theorem set_data_format_rejects:
  assumes "\<not> is_ascii f"
    and "kind f \<notin> {[], ''i'', ''u'', ''iu''} \<or> fsize f \<notin> {PyInt 1, PyInt 2}"
  shows "set_data_format T (Fmt f) s = (Inl (ValueError (unsupported_msg f)), s)"
proof -
  from assms(2) have "\<not> py_in (kind f) ''iu'' \<or> fsize f \<notin> {PyInt 1, PyInt 2}"
    unfolding py_in_iu by blast
  with assms(1) show ?thesis
    by (simp add: set_data_format_def raise_io_def del: py_in.simps)
qed

theorem set_data_format_rejects_witness:
  "set_data_format bench (Fmt \<lparr>fsize = PyInt 4, kind = ''f'', byteorder = PyStr ''<''\<rparr>) (bench0 [] [])
     = (Inl (ValueError (''format <f4 isn'' @ [CHR 0x27] @ ''t supported'')), bench0 [] [])
   \<and> set_data_format bench (Fmt \<lparr>fsize = PyInt 4, kind = ''u'', byteorder = PyStr ''<''\<rparr>) (bench0 [] [])
     = (Inl (ValueError (''format <u4 isn'' @ [CHR 0x27] @ ''t supported'')), bench0 [] [])"
  using set_data_format_rejects [of "\<lparr>fsize = PyInt 4, kind = ''f'', byteorder = PyStr ''<''\<rparr>" bench "bench0 [] []"]
    set_data_format_rejects [of "\<lparr>fsize = PyInt 4, kind = ''u'', byteorder = PyStr ''<''\<rparr>" bench "bench0 [] []"]
  by (simp add: is_ascii_def unsupported_msg_def to_desc_def str_pyval_def str_int_def str_nat.simps digit_char_def)

text \<open>
  C6. On the descriptor \<open><i1\<close>, which is also the driver's default, \<open>set_data_format\<close>
  sends \<open>:WAV:FORM WORD\<close> and a byte order, not \<open>:WAV:FORM BYTE\<close>: the source compares
  the integer size with the string \<open>"1"\<close>, which is never equal. The format returned is
  the one the instrument reports afterwards.
\<close>

theorem set_data_format_byte_writes_word:
  "set_data_format T (Fmt \<lparr>fsize = PyInt 1, kind = ''i'', byteorder = b\<rparr>)
     = then_io (write_arg T '':WAV:UNS'' (ArgBool False))
        (then_io
           (then_io (write_msg T '':WAV:FORM WORD'')
              (if b = PyStr ''>'' then write_msg T '':WAV:BYT LSBF''
               else write_msg T '':WAV:BYT MSBF''))
           (get_data_format T None))
   \<and> set_data_format bench (Fmt \<lparr>fsize = PyInt 1, kind = ''i'', byteorder = PyStr ''<''\<rparr>)
       (bench0 [('':WAV:FORM?'', ''WORD''), (''WAV:UNS?'', ''0''), ('':WAV:BYT?'', ''MSBF'')] [])
     = (Inr \<lparr>fsize = PyInt 2, kind = ''i'', byteorder = PyStr ''<''\<rparr>,
        \<lparr>sent = ['':WAV:UNS 0'', '':WAV:FORM WORD'', '':WAV:BYT MSBF'', '':WAV:FORM?'',
                 ''WAV:UNS?'', '':WAV:BYT?''],
         answers = [('':WAV:FORM?'', ''WORD''), (''WAV:UNS?'', ''0''), ('':WAV:BYT?'', ''MSBF'')],
         payload = []\<rparr>)"
proof
  show "set_data_format T (Fmt \<lparr>fsize = PyInt 1, kind = ''i'', byteorder = b\<rparr>)
     = then_io (write_arg T '':WAV:UNS'' (ArgBool False))
        (then_io
           (then_io (write_msg T '':WAV:FORM WORD'')
              (if b = PyStr ''>'' then write_msg T '':WAV:BYT LSBF''
               else write_msg T '':WAV:BYT MSBF''))
           (get_data_format T None))"
    by (simp add: set_data_format_def is_ascii_def startswith_def)
next
  show "set_data_format bench (Fmt \<lparr>fsize = PyInt 1, kind = ''i'', byteorder = PyStr ''<''\<rparr>)
       (bench0 [('':WAV:FORM?'', ''WORD''), (''WAV:UNS?'', ''0''), ('':WAV:BYT?'', ''MSBF'')] [])
     = (Inr \<lparr>fsize = PyInt 2, kind = ''i'', byteorder = PyStr ''<''\<rparr>,
        \<lparr>sent = ['':WAV:UNS 0'', '':WAV:FORM WORD'', '':WAV:BYT MSBF'', '':WAV:FORM?'',
                 ''WAV:UNS?'', '':WAV:BYT?''],
         answers = [('':WAV:FORM?'', ''WORD''), (''WAV:UNS?'', ''0''), ('':WAV:BYT?'', ''MSBF'')],
         payload = []\<rparr>)"
    by code_simp
qed

theorem set_data_format_byte_writes_word_witness:
  "'':WAV:FORM WORD'' \<in> set (sent (snd (set_data_format bench
       (Fmt \<lparr>fsize = PyInt 1, kind = ''i'', byteorder = PyStr ''<''\<rparr>)
       (bench0 [('':WAV:FORM?'', ''WORD''), (''WAV:UNS?'', ''0''), ('':WAV:BYT?'', ''MSBF'')] []))))
   \<and> '':WAV:FORM BYTE'' \<notin> set (sent (snd (set_data_format bench
       (Fmt \<lparr>fsize = PyInt 1, kind = ''i'', byteorder = PyStr ''<''\<rparr>)
       (bench0 [('':WAV:FORM?'', ''WORD''), (''WAV:UNS?'', ''0''), ('':WAV:BYT?'', ''MSBF'')] []))))"
  using set_data_format_byte_writes_word [where T = bench and b = "PyStr ''<''", THEN conjunct2]
  by simp

subsection \<open>Acquisition in progress\<close>

text \<open>
  C9. \<open>is_grabbing\<close> returns a truth value, whether the reply to \<open>:ACQ:COMP?\<close> differs
  from the string \<open>100\<close>: \<open>True\<close> on the reply \<open>57\<close> and \<open>False\<close> on \<open>100\<close>, not
  the count its docstring promises.
\<close>

theorem is_grabbing_bool:
  "is_grabbing T s =
     (case ask T '':ACQ:COMP?'' s of
        (Inl e, s') \<Rightarrow> (Inl e, s')
      | (Inr r, s') \<Rightarrow> (Inr (r \<noteq> ''100''), s'))
   \<and> is_grabbing bench (bench0 [('':ACQ:COMP?'', ''57'')] [])
     = (Inr True, \<lparr>sent = ['':ACQ:COMP?''], answers = [('':ACQ:COMP?'', ''57'')], payload = []\<rparr>)
   \<and> is_grabbing bench (bench0 [('':ACQ:COMP?'', ''100'')] [])
     = (Inr False, \<lparr>sent = ['':ACQ:COMP?''], answers = [('':ACQ:COMP?'', ''100'')], payload = []\<rparr>)"
  by (simp add: is_grabbing_def bind_io_def bench_ask_Some bench0_def return_io_def
      split: prod.splits sum.splits)

subsection \<open>Scaling\<close>


lemma length_xpts: "length (xpts w n) = n"
  by (simp add: xpts_def)

lemma length_ypts: "length (ypts w data) = length data"
  by (simp add: ypts_def)




subsection \<open>Reading a sweep\<close>


lemma read_sweep_fast_Inr:
  assumes "read_sweep_fast T idx ch (Some w) s = (Inr rows, s')"
  shows "int (length rows) = w_pts w"
  using assms
  unfolding read_sweep_fast_def use_channel_def then_io_def bind_io_def lift_io_def
    raise_io_def return_io_def scale_data_def
  by (auto split: sum.splits prod.splits if_splits simp: length_xpts length_ypts)



lemma bench_channel_1: "to_device bench ''input_channel'' (PyInt 1) = Inr ''CHAN1''"
  by code_simp




subsection \<open>Parsing the preamble\<close>









lemma get_data_format_ASC:
  "startswith form ''ASC'' \<Longrightarrow> form \<noteq> [] \<Longrightarrow>
     get_data_format T (Some form) s = (Inr \<lparr>fsize = PyNone, kind = ''ascii'', byteorder = PyNone\<rparr>, s)"
  by (simp add: get_data_format_def return_io_def)

lemma get_data_format_WORD:
  assumes "get_data_format T (Some ''WORD'') s = (Inr f, s')"
  shows "fsize f = PyInt 2 \<and> kind f \<in> {''i'', ''u''} \<and> byteorder f \<in> {PyStr ''<'', PyStr ''>''}"
  using assms
  unfolding get_data_format_def bind_io_def return_io_def
  by (auto simp: startswith_def split: sum.splits prod.splits if_splits)






subsection \<open>What the preamble parser asks the instrument\<close>









lemma bench_ascii_preamble:
  "build_wfmpre bench (py_split (CHR '';'') ascii_reply) (bench0 [] [])
   = (Inr \<lparr>w_fmt = \<lparr>fsize = PyNone, kind = ''ascii'', byteorder = PyNone\<rparr>,
           w_type = ''AVER'', w_pts = 3, w_count = 1, w_xzero = 0, w_xincr = 2 / 10 ^ 9,
           w_ptoff = 0, w_ymult = 1, w_yzero = 0, w_yoff = 0\<rparr>, bench0 [] [])"
  unfolding ascii_reply_def by code_simp






subsection \<open>Setters return what the getter reads back\<close>

lemma muxchannel_single:
  assumes "ch \<noteq> PyStr ''all''" and "ch \<notin> range PyList"
  shows "muxchannel idx f ch = bind_io (f ch) (\<lambda>r. return_io (One r))"
  using assms by (cases ch) (auto simp: muxchannel_def muxcall_def)

lemma muxchannel_write_then_get:
  assumes "ch \<noteq> PyStr ''all''" and "ch \<notin> range PyList"
    and "to_device T ''input_channel'' ch = Inr d"
    and "w d s = (Inr (), s1)"
  shows "muxchannel idx (use_channel T (\<lambda>c. then_io (w c) (g c))) ch s
       = muxchannel idx (use_channel T g) ch s1"
  using assms
  by (simp add: muxchannel_single use_channel_def then_io_def bind_io_def)

text \<open>
  C10. Each setter writes its command and then returns what its getter returns on the
  instrument as the write left it; the argument reaches the result only through the
  instrument. For \<open>set_trigger_level\<close>, \<open>set_horizontal_span\<close> and
  \<open>set_horizontal_offset\<close> this is the getter itself; for the per-channel setters,
  called on one channel that the parameter table accepts, it is the getter on that channel.
  \<open>set_coupling\<close> reaches \<open>get_coupling\<close> through the multiplexer once more, so its
  scalar result is the getter's scalar result. On the bench, whose answers do not follow
  the writes, every setter returns the bench's answer and not its argument.
\<close>

theorem setters_return_getter:
  "(write_arg T (trig_comm @ '':LEVEL'') (ArgFloat level) s = (Inr (), s1)
      \<longrightarrow> set_trigger_level T level s = get_trigger_level T s1)
   \<and> (write_arg T ''TIM:SCAL'' (ArgFloat (hspan / 10)) s = (Inr (), s2)
      \<longrightarrow> set_horizontal_span T hspan s = get_horizontal_span T s2)
   \<and> (write_arg T '':TIM:POS'' (ArgFloat offset) s = (Inr (), s3)
      \<longrightarrow> set_horizontal_offset T offset s = get_horizontal_offset T s3)
   \<and> (ch \<noteq> PyStr ''all'' \<and> ch \<notin> range PyList \<and> to_device T ''input_channel'' ch = Inr d
      \<longrightarrow>
        (write_arg T ('':'' @ d @ '':SCAL'') (ArgFloat (vspan / 10)) s = (Inr (), s4)
           \<longrightarrow> set_vertical_span T idx ch vspan s = get_vertical_span T idx ch s4)
      \<and> (write_arg T ('':'' @ d @ ''::OFFS'') (ArgFloat position) s = (Inr (), s5)
           \<longrightarrow> set_vertical_position T idx ch position s = get_vertical_position T idx ch s5)
      \<and> (write_arg T ('':'' @ d @ '':DISP'') (ArgBool enabled) s = (Inr (), s6)
           \<longrightarrow> enable_channel T idx ch enabled s = is_channel_enabled T idx ch s6)
      \<and> (write_arg T ('':'' @ d @ '':PROB'') (ArgFloat attenuation) s = (Inr (), s7)
           \<longrightarrow> set_probe_attenuation T idx ch attenuation s = get_probe_attenuation T idx ch s7)
      \<and> (to_device T ''coupling'' coupling = Inr cp
           \<and> write_arg T ('':'' @ d @ '':COUP'') (ArgStr cp) s = (Inr (), s8)
           \<longrightarrow> set_coupling T idx ch coupling s
               = bind_io (get_coupling T idx ch) (\<lambda>r. return_io (One r)) s8))"
proof (intro conjI impI)
  assume "write_arg T (trig_comm @ '':LEVEL'') (ArgFloat level) s = (Inr (), s1)"
  then show "set_trigger_level T level s = get_trigger_level T s1"
    by (simp add: set_trigger_level_def then_io_Inr)
next
  assume "write_arg T ''TIM:SCAL'' (ArgFloat (hspan / 10)) s = (Inr (), s2)"
  then show "set_horizontal_span T hspan s = get_horizontal_span T s2"
    by (simp add: set_horizontal_span_def then_io_Inr)
next
  assume "write_arg T '':TIM:POS'' (ArgFloat offset) s = (Inr (), s3)"
  then show "set_horizontal_offset T offset s = get_horizontal_offset T s3"
    by (simp add: set_horizontal_offset_def to_horizontal_pos_def hor_pos_mode_def then_io_Inr)
next
  assume c: "ch \<noteq> PyStr ''all'' \<and> ch \<notin> range PyList \<and> to_device T ''input_channel'' ch = Inr d"
    and w: "write_arg T ('':'' @ d @ '':SCAL'') (ArgFloat (vspan / 10)) s = (Inr (), s4)"
  from c w show "set_vertical_span T idx ch vspan s = get_vertical_span T idx ch s4"
    unfolding set_vertical_span_def get_vertical_span_def
    by (intro muxchannel_write_then_get [where d = d]) simp_all
next
  assume c: "ch \<noteq> PyStr ''all'' \<and> ch \<notin> range PyList \<and> to_device T ''input_channel'' ch = Inr d"
    and w: "write_arg T ('':'' @ d @ ''::OFFS'') (ArgFloat position) s = (Inr (), s5)"
  from c w show "set_vertical_position T idx ch position s = get_vertical_position T idx ch s5"
    unfolding set_vertical_position_def get_vertical_position_def
    by (intro muxchannel_write_then_get [where d = d]) simp_all
next
  assume c: "ch \<noteq> PyStr ''all'' \<and> ch \<notin> range PyList \<and> to_device T ''input_channel'' ch = Inr d"
    and w: "write_arg T ('':'' @ d @ '':DISP'') (ArgBool enabled) s = (Inr (), s6)"
  from c w show "enable_channel T idx ch enabled s = is_channel_enabled T idx ch s6"
    unfolding enable_channel_def is_channel_enabled_def
    by (intro muxchannel_write_then_get [where d = d]) simp_all
next
  assume c: "ch \<noteq> PyStr ''all'' \<and> ch \<notin> range PyList \<and> to_device T ''input_channel'' ch = Inr d"
    and w: "write_arg T ('':'' @ d @ '':PROB'') (ArgFloat attenuation) s = (Inr (), s7)"
  from c w show "set_probe_attenuation T idx ch attenuation s = get_probe_attenuation T idx ch s7"
    unfolding set_probe_attenuation_def get_probe_attenuation_def
    by (intro muxchannel_write_then_get [where d = d])
      (simp_all add: probe_attenuation_comm_def)
next
  assume c: "ch \<noteq> PyStr ''all'' \<and> ch \<notin> range PyList \<and> to_device T ''input_channel'' ch = Inr d"
    and w: "to_device T ''coupling'' coupling = Inr cp
           \<and> write_arg T ('':'' @ d @ '':COUP'') (ArgStr cp) s = (Inr (), s8)"
  from c w show "set_coupling T idx ch coupling s
               = bind_io (get_coupling T idx ch) (\<lambda>r. return_io (One r)) s8"
    by (simp add: set_coupling_def get_coupling_def muxchannel_single use_channel_def
        then_io_def bind_io_def)
qed

theorem setters_return_getter_witness:
  "fst (set_trigger_level bench (1 / 2) (bench0 settings_answers [])) = Inr (3 / 2)
   \<and> fst (set_horizontal_span bench 1 (bench0 settings_answers [])) = Inr (1 / 100)
   \<and> fst (set_horizontal_offset bench (1 / 4) (bench0 settings_answers [])) = Inr (0)
   \<and> fst (set_vertical_span bench bench_idx (PyInt 1) 2 (bench0 settings_answers [])) = Inr (One 5)
   \<and> fst (set_vertical_position bench bench_idx (PyInt 1) (1 / 8) (bench0 settings_answers [])) = Inr (One (1 / 4))
   \<and> fst (enable_channel bench bench_idx (PyInt 1) False (bench0 settings_answers [])) = Inr (One True)
   \<and> fst (set_probe_attenuation bench bench_idx (PyInt 1) 1 (bench0 settings_answers [])) = Inr (One 10)
   \<and> fst (set_coupling bench bench_idx (PyInt 1) (PyStr ''ac'') (bench0 settings_answers [])) = Inr (One (One (PyStr ''dc'')))"
proof -
  have c: "PyInt 1 \<noteq> PyStr ''all''" "PyInt 1 \<notin> range PyList"
    "to_device bench ''input_channel'' (PyInt 1) = Inr ''CHAN1''"
    "to_device bench ''coupling'' (PyStr ''ac'') = Inr ''AC''"
    by (auto simp: bench_channel_1) code_simp
  have w1: "write_arg bench (trig_comm @ '':LEVEL'') (ArgFloat (1 / 2)) (bench0 settings_answers []) = (Inr (), after ''TRIG:LEVEL 1/2'')"
    unfolding after_def by code_simp
  have g1: "fst (get_trigger_level bench (after ''TRIG:LEVEL 1/2'')) = Inr (3 / 2)"
    unfolding after_def by code_simp
  have w2: "write_arg bench ''TIM:SCAL'' (ArgFloat (1 / 10)) (bench0 settings_answers []) = (Inr (), after ''TIM:SCAL 1/10'')"
    unfolding after_def by code_simp
  have g2: "fst (get_horizontal_span bench (after ''TIM:SCAL 1/10'')) = Inr (1 / 100)"
    unfolding after_def by code_simp
  have w3: "write_arg bench '':TIM:POS'' (ArgFloat (1 / 4)) (bench0 settings_answers []) = (Inr (), after '':TIM:POS 1/4'')"
    unfolding after_def by code_simp
  have g3: "fst (get_horizontal_offset bench (after '':TIM:POS 1/4'')) = Inr (0)"
    unfolding after_def by code_simp
  have w4: "write_arg bench ('':'' @ ''CHAN1'' @ '':SCAL'') (ArgFloat (2 / 10)) (bench0 settings_answers []) = (Inr (), after '':CHAN1:SCAL 1/5'')"
    unfolding after_def by code_simp
  have g4: "fst (get_vertical_span bench bench_idx (PyInt 1) (after '':CHAN1:SCAL 1/5'')) = Inr (One 5)"
    unfolding after_def by code_simp
  have w5: "write_arg bench ('':'' @ ''CHAN1'' @ ''::OFFS'') (ArgFloat (1 / 8)) (bench0 settings_answers []) = (Inr (), after '':CHAN1::OFFS 1/8'')"
    unfolding after_def by code_simp
  have g5: "fst (get_vertical_position bench bench_idx (PyInt 1) (after '':CHAN1::OFFS 1/8'')) = Inr (One (1 / 4))"
    unfolding after_def by code_simp
  have w6: "write_arg bench ('':'' @ ''CHAN1'' @ '':DISP'') (ArgBool False) (bench0 settings_answers []) = (Inr (), after '':CHAN1:DISP 0'')"
    unfolding after_def by code_simp
  have g6: "fst (is_channel_enabled bench bench_idx (PyInt 1) (after '':CHAN1:DISP 0'')) = Inr (One True)"
    unfolding after_def by code_simp
  have w7: "write_arg bench ('':'' @ ''CHAN1'' @ '':PROB'') (ArgFloat 1) (bench0 settings_answers []) = (Inr (), after '':CHAN1:PROB 1/1'')"
    unfolding after_def by code_simp
  have g7: "fst (get_probe_attenuation bench bench_idx (PyInt 1) (after '':CHAN1:PROB 1/1'')) = Inr (One 10)"
    unfolding after_def by code_simp
  have w8: "write_arg bench ('':'' @ ''CHAN1'' @ '':COUP'') (ArgStr ''AC'') (bench0 settings_answers []) = (Inr (), after '':CHAN1:COUP AC'')"
    unfolding after_def by code_simp
  have g8: "fst (bind_io (get_coupling bench bench_idx (PyInt 1)) (\<lambda>r. return_io (One r)) (after '':CHAN1:COUP AC'')) = Inr (One (One (PyStr ''dc'')))"
    unfolding after_def by code_simp
  from setters_return_getter [where T = bench and s = "bench0 settings_answers []" and idx = bench_idx and ch = "PyInt 1" and d = "''CHAN1''"
      and level = "1 / 2" and hspan = 1 and offset = "1 / 4" and vspan = 2 and position = "1 / 8"
      and enabled = False and attenuation = 1 and coupling = "PyStr ''ac''" and cp = "''AC''"
      and ?s1.0 = "after ''TRIG:LEVEL 1/2''"
      and ?s2.0 = "after ''TIM:SCAL 1/10''"
      and ?s3.0 = "after '':TIM:POS 1/4''"
      and ?s4.0 = "after '':CHAN1:SCAL 1/5''"
      and ?s5.0 = "after '':CHAN1::OFFS 1/8''"
      and ?s6.0 = "after '':CHAN1:DISP 0''"
      and ?s7.0 = "after '':CHAN1:PROB 1/1''"
      and ?s8.0 = "after '':CHAN1:COUP AC''"]
    c w1 w2 w3 w4 w5 w6 w7 w8
  have "set_trigger_level bench (1 / 2) (bench0 settings_answers []) = get_trigger_level bench (after ''TRIG:LEVEL 1/2'')
    \<and> set_horizontal_span bench 1 (bench0 settings_answers []) = get_horizontal_span bench (after ''TIM:SCAL 1/10'')
    \<and> set_horizontal_offset bench (1 / 4) (bench0 settings_answers []) = get_horizontal_offset bench (after '':TIM:POS 1/4'')
    \<and> set_vertical_span bench bench_idx (PyInt 1) 2 (bench0 settings_answers []) = get_vertical_span bench bench_idx (PyInt 1) (after '':CHAN1:SCAL 1/5'')
    \<and> set_vertical_position bench bench_idx (PyInt 1) (1 / 8) (bench0 settings_answers []) = get_vertical_position bench bench_idx (PyInt 1) (after '':CHAN1::OFFS 1/8'')
    \<and> enable_channel bench bench_idx (PyInt 1) False (bench0 settings_answers []) = is_channel_enabled bench bench_idx (PyInt 1) (after '':CHAN1:DISP 0'')
    \<and> set_probe_attenuation bench bench_idx (PyInt 1) 1 (bench0 settings_answers []) = get_probe_attenuation bench bench_idx (PyInt 1) (after '':CHAN1:PROB 1/1'')
    \<and> set_coupling bench bench_idx (PyInt 1) (PyStr ''ac'') (bench0 settings_answers []) = bind_io (get_coupling bench bench_idx (PyInt 1)) (\<lambda>r. return_io (One r)) (after '':CHAN1:COUP AC'')"
    by simp
  with g1 g2 g3 g4 g5 g6 g7 g8 show ?thesis
    by simp
qed

subsection \<open>The word all\<close>

lemma muxchannel_all:
  "muxchannel idx f (PyStr ''all'') = muxchannel idx f (PyList (map PyInt idx))"
  by (simp add: muxchannel_def muxcall_def ch_func_def)

lemma bench_rejects_all:
  "to_device bench ''input_channel'' (PyStr ''all'') = Inl (ValidationError ''all'')"
  by code_simp

text \<open>
  C8. The multiplexer replaces \<open>"all"\<close> by the list of the main channel indices, so a
  method that has the multiplexer outermost, such as \<open>get_vertical_span\<close>, gives on
  \<open>"all"\<close> what it gives on that list. \<open>get_coupling\<close> has its decorators in the other
  order: the parameter conversion of the channel runs first, on the word \<open>"all"\<close> itself,
  and the multiplexer only sees what the conversion returns. On the bench, whose parameter
  class for input channels declares the indices 1, 2, 3 and nothing else, \<open>get_coupling\<close>
  on \<open>"all"\<close> fails with the parameter class's error and sends nothing.
\<close>

theorem get_coupling_all:
  "muxchannel idx f (PyStr ''all'') = muxchannel idx f (PyList (map PyInt idx))
   \<and> get_vertical_span T idx (PyStr ''all'') = get_vertical_span T idx (PyList (map PyInt idx))
   \<and> get_coupling T idx (PyStr ''all'') s =
       (case to_device T ''input_channel'' (PyStr ''all'') of
          Inl e \<Rightarrow> (Inl e, s)
        | Inr d \<Rightarrow> wip_get_coupling T idx d s)
   \<and> get_coupling bench bench_idx (PyStr ''all'') (bench0 settings_answers [])
       = (Inl (ValidationError ''all''), bench0 settings_answers [])"
  by (simp add: muxchannel_all get_vertical_span_def get_coupling_def bench_rejects_all
      raise_io_def bind_io_def lift_io_def split: sum.splits)

end
